theory Spec2Isabelle
  imports Main "HOL-Library.Word"
begin

section \<open>The storage miner of \<^verbatim>\<open>storage/miner.go\<close>\<close>

text \<open>
  The file holds the miner's lifecycle (\<^verbatim>\<open>NewMiner\<close>, \<^verbatim>\<open>Run\<close>, \<^verbatim>\<open>Stop\<close>,
  \<^verbatim>\<open>runPreflightChecks\<close>), the ticker loop \<^verbatim>\<open>fillData\<close> and the election
  proof adapter \<^verbatim>\<open>SectorBuilderEpp\<close>. Every function is embedded as a HOL function
  that returns the values the Go function returns, the updated receiver where the
  function assigns to a field, and the list of effects it performs, in program order:
  calls to collaborators, goroutines started, the ticker and the channel operations.
  Logging and the wall-clock measurements around the two adapter calls influence no
  result and are left out.
\<close>

subsection \<open>Values\<close>

type_synonym byte = "8 word"
type_synonym uint64 = "64 word"

text \<open>\<^verbatim>\<open>address.Address\<close> is a struct around one string; its zero value is the empty string.\<close>

type_synonym address = string

text \<open>
  \<^verbatim>\<open>host.Host\<close>, \<^verbatim>\<open>datastore.Batching\<close> and \<^verbatim>\<open>sealing.TicketFn\<close> are only
  stored by \<^verbatim>\<open>NewMiner\<close> and handed on to \<^verbatim>\<open>sealing.New\<close>: opaque references.
\<close>

type_synonym handle = nat

text \<open>
  A Go \<^verbatim>\<open>error\<close> value. \<open>Foreign\<close> is an error made by a collaborator (chain client,
  wallet, sector builder, context), known by its message; \<open>New\<close> is \<^verbatim>\<open>errors.New\<close>;
  \<open>Errorf\<close> is \<^verbatim>\<open>xerrors.Errorf\<close> with a format string that ends in \<^verbatim>\<open>%w\<close>
  and the error it wraps. The nil error is \<open>None\<close> of \<open>error option\<close>.
\<close>

datatype error =
    Foreign string
  | New string
  | Errorf string error

text \<open>
  An error wraps the error it was made from by \<^verbatim>\<open>%w\<close>, and what that one wraps
  (the chain that \<^verbatim>\<open>Unwrap\<close> follows).
\<close>

fun wraps :: "error \<Rightarrow> error \<Rightarrow> bool" where
  "wraps (Errorf msg e') e = (e' = e \<or> wraps e' e)"
| "wraps _ e = False"

text \<open>
  A Go function returning \<^verbatim>\<open>(T, error)\<close> returns both values; the model keeps the pair,
  so that a collaborator may return a value next to a non-nil error.
\<close>

type_synonym 'a result = "'a \<times> error option"

text \<open>A slice is a list; the nil slice is the empty list.\<close>

definition bytes :: "string \<Rightarrow> byte list" where
  "bytes s = map of_char s"

text \<open>
  Go's builtin \<^verbatim>\<open>copy(dst, src)\<close>: the first \<open>min (len dst) (len src)\<close> elements of
  \<open>dst\<close> are overwritten by those of \<open>src\<close>; the rest of \<open>dst\<close> stays.
\<close>

definition copy :: "'a list \<Rightarrow> 'a list \<Rightarrow> 'a list" where
  "copy dst src = (let n = min (length dst) (length src) in take n src @ drop n dst)"

subsection \<open>Collaborators\<close>

text \<open>
  Of \<^verbatim>\<open>storageMinerApi\<close> this file calls \<^verbatim>\<open>StateMinerWorker\<close> (always with a nil
  tipset) and \<^verbatim>\<open>WalletHas\<close>. A collaborator is given by what it answers.
\<close>

record storageMinerApi =
  StateMinerWorker :: "address \<Rightarrow> address result"
  WalletHas :: "address \<Rightarrow> bool result"

text \<open>
  Of \<^verbatim>\<open>sectorbuilder.Interface\<close> this file calls the four methods below. The types of
  the sector info and of a candidate are declared in the sector builder library and stay
  type parameters.
\<close>

record ('ssi, 'cand) sectorbuilder =
  GetFreeWorkers :: int
  Busy :: bool
  GenerateEPostCandidates :: "'ssi \<Rightarrow> byte list \<Rightarrow> uint64 list \<Rightarrow> 'cand list result"
  ComputeElectionPoSt :: "'ssi \<Rightarrow> byte list \<Rightarrow> 'cand list \<Rightarrow> byte list result"

text \<open>The effects of the file, as they appear in a trace.\<close>

datatype ('ssi, 'cand) event =
    Call_StateMinerWorker address
  | Call_WalletHas address
  | Go_fps_run address address
  | Call_NewEvents
  | Call_sealing_New address address handle handle
  | Call_NewTicker int
  | Go_fillData
  | Call_GetFreeWorkers
  | Call_Busy
  | Call_PledgeSector
  | Call_Ticker_Stop
  | Close_stop
  | Call_sealing_Stop
  | Call_GenerateEPostCandidates 'ssi "byte list" "uint64 list"
  | Call_ComputeElectionPoSt 'ssi "byte list" "'cand list"

text \<open>
  Starting a goroutine, a ticker or the sealing machine, and pledging a sector, start work;
  the spec's count of started loops is the number of \<^verbatim>\<open>go\<close> statements run.
\<close>

fun is_go :: "('ssi, 'cand) event \<Rightarrow> bool" where
  "is_go (Go_fps_run _ _) = True"
| "is_go Go_fillData = True"
| "is_go _ = False"

fun starts_work :: "('ssi, 'cand) event \<Rightarrow> bool" where
  "starts_work (Go_fps_run _ _) = True"
| "starts_work Go_fillData = True"
| "starts_work (Call_sealing_New _ _ _ _) = True"
| "starts_work (Call_NewTicker _) = True"
| "starts_work Call_NewEvents = True"
| "starts_work Call_PledgeSector = True"
| "starts_work _ = False"

definition loops_started :: "('ssi, 'cand) event list \<Rightarrow> nat" where
  "loops_started tr = length (filter is_go tr)"

definition pledges :: "('ssi, 'cand) event list \<Rightarrow> nat" where
  "pledges tr = length (filter (\<lambda>e. e = Call_PledgeSector) tr)"

subsection \<open>The miner\<close>

text \<open>
  \<^verbatim>\<open>*time.Ticker\<close> and \<^verbatim>\<open>*sealing.Sealing\<close> are pointers, nil until \<^verbatim>\<open>Run\<close>
  assigns them. The two channels are made by \<^verbatim>\<open>NewMiner\<close>; nothing is ever sent on
  them, so a channel is open or closed.
\<close>

record Ticker =
  period :: int
  active :: bool

datatype Sealing = Sealing address address handle handle

datatype chan = Open | Closed

record ('ssi, 'cand) Miner =
  api :: storageMinerApi
  h :: handle
  sb :: "('ssi, 'cand) sectorbuilder"
  ds :: handle
  tktFn :: handle
  dataTiker :: "Ticker option"
  maddr :: address
  worker :: address
  sealing :: "Sealing option"
  stop :: chan
  stopped :: chan

text \<open>\<^verbatim>\<open>time.Second\<close>, in nanoseconds.\<close>

definition Second :: int where
  "Second = 1000000000"

text \<open>
  \<^verbatim>\<open>
  m := &Miner{api: api, h: h, sb: sb, ds: ds, tktFn: tktFn, maddr: addr,
      stop: make(chan struct{}), stopped: make(chan struct{})}
  return m, nil
  \<close>
\<close>

definition NewMiner ::
  "storageMinerApi \<Rightarrow> address \<Rightarrow> handle \<Rightarrow> handle \<Rightarrow> ('ssi, 'cand) sectorbuilder \<Rightarrow> handle
     \<Rightarrow> ('ssi, 'cand) Miner result" where
  "NewMiner a addr hh d s t =
     (\<lparr>api = a, h = hh, sb = s, ds = d, tktFn = t, dataTiker = None, maddr = addr,
       worker = [], sealing = None, stop = Open, stopped = Open\<rparr>, None)"

text \<open>
  \<^verbatim>\<open>
  worker, err := m.api.StateMinerWorker(ctx, m.maddr, nil)
  if err != nil { return err }
  m.worker = worker
  has, err := m.api.WalletHas(ctx, worker)
  if err != nil {
      return xerrors.Errorf("failed to check wallet for worker key: %w", err)
  }
  if !has { return errors.New("key for worker not found in local wallet") }
  return nil
  \<close>
\<close>

definition runPreflightChecks ::
  "('ssi, 'cand) Miner \<Rightarrow> ('ssi, 'cand) Miner \<times> ('ssi, 'cand) event list \<times> error option" where
  "runPreflightChecks m =
     (case StateMinerWorker (api m) (maddr m) of
        (w, Some err) \<Rightarrow> (m, [Call_StateMinerWorker (maddr m)], Some err)
      | (w, None) \<Rightarrow>
          (let m1 = m\<lparr>worker := w\<rparr>;
               tr = [Call_StateMinerWorker (maddr m), Call_WalletHas w]
           in case WalletHas (api m1) w of
                (has, Some err) \<Rightarrow>
                  (m1, tr, Some (Errorf ''failed to check wallet for worker key: %w'' err))
              | (has, None) \<Rightarrow>
                  if \<not> has then (m1, tr, Some (New ''key for worker not found in local wallet''))
                  else (m1, tr, None)))"

text \<open>
  \<^verbatim>\<open>
  if err := m.runPreflightChecks(ctx); err != nil {
      return xerrors.Errorf("miner preflight checks failed: %w", err)
  }
  fps := &fpostScheduler{api: m.api, sb: m.sb, actor: m.maddr, worker: m.worker}
  go fps.run(ctx)
  evts := events.NewEvents(ctx, m.api)
  m.sealing = sealing.New(m.api, evts, m.maddr, m.worker, m.ds, m.sb, m.tktFn)
  m.dataTiker = time.NewTicker(120 * time.Second)
  go m.fillData()
  return nil
  \<close>
\<close>

definition Run ::
  "('ssi, 'cand) Miner \<Rightarrow> ('ssi, 'cand) Miner \<times> ('ssi, 'cand) event list \<times> error option" where
  "Run m =
     (case runPreflightChecks m of
        (m1, tr, Some err) \<Rightarrow> (m1, tr, Some (Errorf ''miner preflight checks failed: %w'' err))
      | (m1, tr, None) \<Rightarrow>
          (m1\<lparr>sealing := Some (Sealing (maddr m1) (worker m1) (ds m1) (tktFn m1)),
              dataTiker := Some \<lparr>period = 120 * Second, active = True\<rparr>\<rparr>,
           tr @ [Go_fps_run (maddr m1) (worker m1),
                 Call_NewEvents,
                 Call_sealing_New (maddr m1) (worker m1) (ds m1) (tktFn m1),
                 Call_NewTicker (120 * Second),
                 Go_fillData],
           None))"

text \<open>
  The body of the loop of \<^verbatim>\<open>fillData\<close>, run once for every tick received:
  \<^verbatim>\<open>
  if m.sb.GetFreeWorkers() > 0 && !m.sb.Busy() {
      m.PledgeSector()
  }
  \<close>
  \<^verbatim>\<open>&&\<close> evaluates its right operand only when the left one is true.
  \<^verbatim>\<open>PledgeSector\<close> is a method of another file; its result is dropped.
\<close>

definition fillData_tick :: "('ssi, 'cand) Miner \<Rightarrow> ('ssi, 'cand) event list" where
  "fillData_tick m =
     (if GetFreeWorkers (sb m) > 0
      then (if \<not> Busy (sb m) then [Call_GetFreeWorkers, Call_Busy, Call_PledgeSector]
            else [Call_GetFreeWorkers, Call_Busy])
      else [Call_GetFreeWorkers])"

text \<open>
  \<^verbatim>\<open>for range m.dataTiker.C { ... }\<close>: the channel of a ticker is never closed, so the
  loop never ends by itself. The model runs it over the ticks received so far, each with
  the sector builder as it answers at that tick.
\<close>

fun fillData ::
  "('ssi, 'cand) Miner \<Rightarrow> ('ssi, 'cand) sectorbuilder list \<Rightarrow> ('ssi, 'cand) event list" where
  "fillData m [] = []"
| "fillData m (s # ticks) = fillData_tick (m\<lparr>sb := s\<rparr>) @ fillData m ticks"

text \<open>
  How a call ends: it returns, it panics, or it blocks for ever.
\<close>

datatype panic = NilPointerDereference | CloseOfClosedChannel

datatype 'a outcome = Returned 'a | Panicked panic | Blocked

text \<open>
  The context given to \<^verbatim>\<open>Stop\<close>, as its \<^verbatim>\<open>select\<close> sees it: \<^verbatim>\<open>ctx.Done()\<close> is
  never closed (\<^verbatim>\<open>context.Background()\<close>), or it is closed, by a deadline or a
  cancellation, and \<^verbatim>\<open>ctx.Err()\<close> is then the given error.
\<close>

datatype Context = Never_done | Done error

text \<open>
  \<^verbatim>\<open>
  select {
  case <-m.stopped: ...
  case <-ctx.Done(): ...
  }
  \<close>
  Nothing is sent on \<^verbatim>\<open>m.stopped\<close>, so the first case can be taken only when the
  channel is closed, and no function of the file closes it. The second case can be taken
  when the context is done. When both can be taken the runtime picks one (\<open>pick\<close> says
  whether it is the first); when none can, the \<^verbatim>\<open>select\<close> blocks: \<open>None\<close>.
\<close>

datatype select_case = Recv_stopped | Recv_ctx_Done error

definition select_stopped_or_Done :: "chan \<Rightarrow> Context \<Rightarrow> bool \<Rightarrow> select_case option" where
  "select_stopped_or_Done c ctx pick =
     (case c of
        Open \<Rightarrow> (case ctx of Never_done \<Rightarrow> None | Done err \<Rightarrow> Some (Recv_ctx_Done err))
      | Closed \<Rightarrow>
          (case ctx of
             Never_done \<Rightarrow> Some Recv_stopped
           | Done err \<Rightarrow> if pick then Some Recv_stopped else Some (Recv_ctx_Done err)))"

text \<open>
  \<^verbatim>\<open>
  defer m.sealing.Stop(ctx)
  m.dataTiker.Stop()
  close(m.stop)
  select {
  case <-m.stopped: return nil
  case <-ctx.Done(): return ctx.Err()
  }
  \<close>
  \<^verbatim>\<open>(*Ticker).Stop\<close> reads a field of its receiver: on the nil ticker it panics.
  \<^verbatim>\<open>close\<close> of a closed channel panics. The deferred call runs when \<^verbatim>\<open>Stop\<close> returns
  and when it panics, not while it blocks; its result is dropped.
\<close>

definition Stop ::
  "('ssi, 'cand) Miner \<Rightarrow> Context \<Rightarrow> bool
     \<Rightarrow> ('ssi, 'cand) Miner \<times> ('ssi, 'cand) event list \<times> error option outcome" where
  "Stop m ctx pick =
     (case dataTiker m of
        None \<Rightarrow> (m, [Call_sealing_Stop], Panicked NilPointerDereference)
      | Some t \<Rightarrow>
          (let m1 = m\<lparr>dataTiker := Some (t\<lparr>active := False\<rparr>)\<rparr> in
           case stop m1 of
             Closed \<Rightarrow> (m1, [Call_Ticker_Stop, Call_sealing_Stop], Panicked CloseOfClosedChannel)
           | Open \<Rightarrow>
               (let m2 = m1\<lparr>stop := Closed\<rparr> in
                case select_stopped_or_Done (stopped m2) ctx pick of
                  None \<Rightarrow> (m2, [Call_Ticker_Stop, Close_stop], Blocked)
                | Some Recv_stopped \<Rightarrow>
                    (m2, [Call_Ticker_Stop, Close_stop, Call_sealing_Stop], Returned None)
                | Some (Recv_ctx_Done err) \<Rightarrow>
                    (m2, [Call_Ticker_Stop, Close_stop, Call_sealing_Stop], Returned (Some err)))))"

text \<open>
  The life of a miner: calls of \<^verbatim>\<open>Run\<close> and \<^verbatim>\<open>Stop\<close>, in any order, between which
  the collaborators may come to answer differently. \<open>after\<close> is the miner that a history
  of such steps leaves.
\<close>

datatype ('ssi, 'cand) step =
    Step_Run
  | Step_Stop Context bool
  | Step_answers storageMinerApi "('ssi, 'cand) sectorbuilder"

fun after :: "('ssi, 'cand) step list \<Rightarrow> ('ssi, 'cand) Miner \<Rightarrow> ('ssi, 'cand) Miner" where
  "after [] m = m"
| "after (Step_Run # steps) m = after steps (fst (Run m))"
| "after (Step_Stop ctx pick # steps) m = after steps (fst (Stop m ctx pick))"
| "after (Step_answers a s # steps) m = after steps (m\<lparr>api := a, sb := s\<rparr>)"

subsection \<open>The election proof adapter\<close>

datatype ('ssi, 'cand) SectorBuilderEpp =
  SectorBuilderEpp (epp_sb: "('ssi, 'cand) sectorbuilder")

definition NewElectionPoStProver ::
  "('ssi, 'cand) sectorbuilder \<Rightarrow> ('ssi, 'cand) SectorBuilderEpp" where
  "NewElectionPoStProver s = SectorBuilderEpp s"

text \<open>
  \<^verbatim>\<open>
  var faults []uint64 // TODO
  var randbuf [32]byte
  copy(randbuf[:], rand)
  cds, err := epp.sb.GenerateEPostCandidates(ssi, randbuf, faults)
  if err != nil { return nil, err }
  return cds, nil
  \<close>
\<close>

definition randbuf :: "byte list \<Rightarrow> byte list" where
  "randbuf rand = copy (replicate 32 0) rand"

definition GenerateCandidates ::
  "('ssi, 'cand) SectorBuilderEpp \<Rightarrow> 'ssi \<Rightarrow> byte list
     \<Rightarrow> ('ssi, 'cand) event list \<times> 'cand list result" where
  "GenerateCandidates epp ssi rand =
     (let faults = [];
          tr = [Call_GenerateEPostCandidates ssi (randbuf rand) faults]
      in case GenerateEPostCandidates (epp_sb epp) ssi (randbuf rand) faults of
           (cds, Some err) \<Rightarrow> (tr, ([], Some err))
         | (cds, None) \<Rightarrow> (tr, (cds, None)))"

text \<open>
  \<^verbatim>\<open>
  if build.InsecurePoStValidation {
      return []byte("valid proof"), nil
  }
  proof, err := epp.sb.ComputeElectionPoSt(ssi, rand, winners)
  if err != nil { return nil, err }
  return proof, nil
  \<close>
  \<^verbatim>\<open>build.InsecurePoStValidation\<close> is a variable of package \<^verbatim>\<open>build\<close>: a parameter.
\<close>

definition ComputeProof ::
  "bool \<Rightarrow> ('ssi, 'cand) SectorBuilderEpp \<Rightarrow> 'ssi \<Rightarrow> byte list \<Rightarrow> 'cand list
     \<Rightarrow> ('ssi, 'cand) event list \<times> byte list result" where
  "ComputeProof InsecurePoStValidation epp ssi rand winners =
     (if InsecurePoStValidation then ([], (bytes ''valid proof'', None))
      else
        (let tr = [Call_ComputeElectionPoSt ssi rand winners]
         in case ComputeElectionPoSt (epp_sb epp) ssi rand winners of
              (prf, Some err) \<Rightarrow> (tr, ([], Some err))
            | (prf, None) \<Rightarrow> (tr, (prf, None))))"

subsection \<open>Test doubles\<close>

text \<open>
  Concrete collaborators, on which the theorems below are run: a chain client and wallet
  that authorise the worker, one that does not know the miner actor, one whose wallet has
  no key for the worker, two whose wallet query itself fails, and an idle and a busy,
  failing sector builder.
\<close>

definition stub_api :: storageMinerApi where
  "stub_api = \<lparr>StateMinerWorker = (\<lambda>a. (''t3worker'', None)),
     WalletHas = (\<lambda>a. (a = ''t3worker'', None))\<rparr>"

definition stub_api_no_actor :: storageMinerApi where
  "stub_api_no_actor = \<lparr>StateMinerWorker = (\<lambda>a. ([], Some (Foreign ''actor not found''))),
     WalletHas = (\<lambda>a. (True, None))\<rparr>"

definition stub_api_no_key :: storageMinerApi where
  "stub_api_no_key = \<lparr>StateMinerWorker = (\<lambda>a. (''t3worker'', None)),
     WalletHas = (\<lambda>a. (False, None))\<rparr>"

definition stub_api_wallet_down :: storageMinerApi where
  "stub_api_wallet_down = \<lparr>StateMinerWorker = (\<lambda>a. (''t3worker'', None)),
     WalletHas = (\<lambda>a. (False, Some (Foreign ''wallet locked'')))\<rparr>"

definition stub_api_wallet_flaky :: storageMinerApi where
  "stub_api_wallet_flaky = \<lparr>StateMinerWorker = (\<lambda>a. (''t3worker'', None)),
     WalletHas = (\<lambda>a. (True, Some (Foreign ''wallet locked'')))\<rparr>"

definition stub_sb :: "(nat, nat) sectorbuilder" where
  "stub_sb = \<lparr>GetFreeWorkers = 3, Busy = False,
     GenerateEPostCandidates = (\<lambda>ssi r faults. ([ssi + length r + length faults], None)),
     ComputeElectionPoSt = (\<lambda>ssi r winners. (r @ map of_nat winners, None))\<rparr>"

definition stub_sb_failing :: "(nat, nat) sectorbuilder" where
  "stub_sb_failing = \<lparr>GetFreeWorkers = 3, Busy = True,
     GenerateEPostCandidates = (\<lambda>ssi r faults. ([7], Some (Foreign ''sector unavailable''))),
     ComputeElectionPoSt = (\<lambda>ssi r winners. ([1, 2], Some (Foreign ''proof failed'')))\<rparr>"

definition stub_miner :: "storageMinerApi \<Rightarrow> (nat, nat) Miner" where
  "stub_miner a = fst (NewMiner a ''t01000'' 1 2 stub_sb 3)"

section \<open>Properties\<close>

subsection \<open>Auxiliary facts\<close>

lemma pledges_Nil: "pledges [] = 0"
  by (simp add: pledges_def)

lemma pledges_append: "pledges (xs @ ys) = pledges xs + pledges ys"
  by (simp add: pledges_def)

lemma pledges_fillData_tick:
  "pledges (fillData_tick m) = (if 0 < GetFreeWorkers (sb m) \<and> \<not> Busy (sb m) then 1 else 0)"
  by (simp add: fillData_tick_def pledges_def)

lemma pledges_fillData:
  "pledges (fillData m ticks) =
     length (filter (\<lambda>s. 0 < GetFreeWorkers s \<and> \<not> Busy s) ticks)"
  by (induction ticks) (simp_all add: pledges_Nil pledges_append pledges_fillData_tick)

lemma GenerateCandidates_trace:
  "fst (GenerateCandidates epp ssi rand) = [Call_GenerateEPostCandidates ssi (randbuf rand) []]"
  by (simp add: GenerateCandidates_def Let_def split: prod.splits option.splits)

lemma length_randbuf: "length (randbuf r) = 32"
  by (simp add: randbuf_def copy_def Let_def)

lemma randbuf_eq: "randbuf r = take 32 r @ replicate (32 - length r) 0"
  by (simp add: randbuf_def copy_def Let_def min_def)

lemma randbuf_cong:
  assumes "take 32 r = take 32 r'"
  shows "randbuf r = randbuf r'"
proof -
  from assms have "length (take 32 r) = length (take 32 r')" by simp
  then have "min (length r) 32 = min (length r') 32" by simp
  then have "32 - length r = 32 - length r'" by arith
  with assms show ?thesis by (simp add: randbuf_eq)
qed

text \<open>A successful \<^verbatim>\<open>Run\<close> leaves a miner with a running ticker and a sealing machine.\<close>

lemma Run_success:
  "snd (snd (Run m)) = None \<Longrightarrow>
     dataTiker (fst (Run m)) = Some \<lparr>period = 120 * Second, active = True\<rparr> \<and>
     sealing (fst (Run m)) \<noteq> None \<and> stop (fst (Run m)) = stop m \<and>
     loops_started (fst (snd (Run m))) = 2"
  by (auto simp: Run_def runPreflightChecks_def Let_def loops_started_def
      split: prod.splits option.splits if_splits)

text \<open>No function of the file closes \<^verbatim>\<open>stopped\<close>, and the loop reads neither channel.\<close>

lemma stopped_Run: "stopped (fst (Run m)) = stopped m"
  by (simp add: Run_def runPreflightChecks_def Let_def split: prod.splits option.splits)

lemma stopped_Stop: "stopped (fst (Stop m ctx pick)) = stopped m"
  by (simp add: Stop_def Let_def
      split: option.splits chan.splits select_case.splits)

lemma stopped_after: "stopped (after steps m) = stopped m"
  by (induction steps m rule: after.induct) (simp_all add: stopped_Run stopped_Stop)

lemma Stop_open_not_nil:
  "stopped m = Open \<Longrightarrow> snd (snd (Stop m ctx pick)) \<noteq> Returned None"
  by (simp add: Stop_def Let_def select_stopped_or_Done_def
      split: option.splits chan.splits Context.splits)

lemma sb_Stop: "sb (fst (Stop m ctx pick)) = sb m"
  by (simp add: Stop_def Let_def
      split: option.splits chan.splits select_case.splits)

lemma fillData_sb: "sb m = sb m' \<Longrightarrow> fillData m ticks = fillData m' ticks"
  by (induction ticks) (simp_all add: fillData_tick_def)

lemma fillData_after_Stop: "fillData (fst (Stop m ctx pick)) ticks = fillData m ticks"
  by (rule fillData_sb) (rule sb_Stop)

subsection \<open>Stop\<close>

text \<open>
  Claim C1, as the code has it. \<^verbatim>\<open>Stop\<close> checks no state and has no error for a
  call out of order. On a new miner, and on a miner whose \<^verbatim>\<open>Run\<close> failed, the ticker is
  nil and \<^verbatim>\<open>Stop\<close> panics on it, leaving the miner as it was. A \<^verbatim>\<open>Stop\<close> after
  a \<^verbatim>\<open>Stop\<close> panics as well: on a miner that was run, when it closes the channel
  \<^verbatim>\<open>stop\<close> again. So such a call returns neither nil nor an error, and does not block.
\<close>

theorem Stop_out_of_order_panics:
  "snd (snd (Stop (fst (NewMiner a addr hh d s t) :: ('ssi, 'cand) Miner) ctx pick)) =
     Panicked NilPointerDereference \<and>
   (dataTiker (m :: ('ssi, 'cand) Miner) = None \<longrightarrow>
      fst (Stop m ctx pick) = m \<and> snd (snd (Stop m ctx pick)) = Panicked NilPointerDereference) \<and>
   (dataTiker m = None \<longrightarrow> snd (snd (Run m)) \<noteq> None \<longrightarrow>
      snd (snd (Stop (fst (Run m)) ctx pick)) = Panicked NilPointerDereference) \<and>
   (dataTiker m \<noteq> None \<longrightarrow>
      snd (snd (Stop (fst (Stop m ctx pick)) ctx' pick')) = Panicked CloseOfClosedChannel) \<and>
   (\<exists>p. snd (snd (Stop (fst (Stop m ctx pick)) ctx' pick')) = Panicked p)"
  by (auto simp: Stop_def Run_def runPreflightChecks_def NewMiner_def Let_def
      split: prod.splits option.splits chan.splits select_case.splits if_splits)

theorem Stop_out_of_order_panics_witness:
  "snd (snd (Stop (fst (NewMiner stub_api ''t01000'' 1 2 stub_sb 3)) Never_done True)) =
     Panicked NilPointerDereference \<and>
   dataTiker (stub_miner stub_api_no_key) = None \<and>
   snd (snd (Run (stub_miner stub_api_no_key))) \<noteq> None \<and>
   snd (snd (Stop (fst (Run (stub_miner stub_api_no_key))) Never_done True)) =
     Panicked NilPointerDereference \<and>
   dataTiker (fst (Run (stub_miner stub_api))) \<noteq> None \<and>
   snd (snd (Stop (fst (Stop (fst (Run (stub_miner stub_api))) Never_done True))
     Never_done True)) = Panicked CloseOfClosedChannel"
proof -
  have n: "dataTiker (stub_miner stub_api_no_key) = None"
    by (simp add: stub_miner_def NewMiner_def)
  have f: "snd (snd (Run (stub_miner stub_api_no_key))) \<noteq> None"
    by (simp add: Run_def runPreflightChecks_def stub_miner_def NewMiner_def stub_api_no_key_def)
  have r: "dataTiker (fst (Run (stub_miner stub_api))) \<noteq> None"
    by (simp add: Run_def runPreflightChecks_def stub_miner_def NewMiner_def stub_api_def)
  show ?thesis
    using n f r
      Stop_out_of_order_panics [of stub_api "''t01000''" 1 2 stub_sb 3 Never_done True
        "stub_miner stub_api_no_key" Never_done True]
      Stop_out_of_order_panics [of stub_api "''t01000''" 1 2 stub_sb 3 Never_done True
        "fst (Run (stub_miner stub_api))" Never_done True]
    by simp
qed

text \<open>
  Claim C1, as stated, fails: \<^verbatim>\<open>Stop\<close> on a miner that was never run, and the second
  \<^verbatim>\<open>Stop\<close> on a miner that was run, do not return an error; they panic.
\<close>

theorem Stop_returns_no_InvalidState:
  "snd (snd (Stop (stub_miner stub_api) Never_done True)) = Panicked NilPointerDereference \<and>
   snd (snd (Stop (fst (Stop (fst (Run (stub_miner stub_api))) (Done (Foreign ''context canceled'')) True))
     (Done (Foreign ''context canceled'')) True)) = Panicked CloseOfClosedChannel"
  by (simp add: Stop_def Run_def runPreflightChecks_def stub_miner_def NewMiner_def stub_api_def
      select_stopped_or_Done_def)

text \<open>
  Claim C8 does not hold of the code. The channels \<^verbatim>\<open>stop\<close> and \<^verbatim>\<open>stopped\<close> are made
  for a handshake with the loops that the file never completes: \<^verbatim>\<open>Stop\<close> closes
  \<^verbatim>\<open>stop\<close> and waits on \<^verbatim>\<open>stopped\<close>, but no function closes \<^verbatim>\<open>stopped\<close>, and
  \<^verbatim>\<open>fillData\<close> reads neither channel. So, after any history of calls on a new miner,
  \<^verbatim>\<open>stopped\<close> is open and \<^verbatim>\<open>Stop\<close> never returns nil. On a running miner it stops the
  ticker and closes \<^verbatim>\<open>stop\<close>, starting no work, and then returns the error of the
  context if the context is done and blocks for ever if it never is; the loop
  \<^verbatim>\<open>fillData\<close> runs on a stopped miner as on the miner before. The last two lines are
  the miner of the test doubles after a successful \<^verbatim>\<open>Run\<close>.
\<close>

theorem Stop_never_confirmed:
  "stopped (after steps (fst (NewMiner a addr hh d s t))) = Open \<and>
   snd (snd (Stop (after steps (fst (NewMiner a addr hh d s t))) ctx pick)) \<noteq> Returned None \<and>
   Stop (m\<lparr>dataTiker := Some tk, stop := Open, stopped := Open\<rparr>) ctx pick =
     (m\<lparr>dataTiker := Some (tk\<lparr>active := False\<rparr>), stop := Closed, stopped := Open\<rparr>,
      [Call_Ticker_Stop, Close_stop] @
        (case ctx of Never_done \<Rightarrow> [] | Done err \<Rightarrow> [Call_sealing_Stop]),
      (case ctx of Never_done \<Rightarrow> Blocked | Done err \<Rightarrow> Returned (Some err))) \<and>
   \<not> list_ex starts_work (fst (snd (Stop m ctx pick))) \<and>
   fillData (fst (Stop m ctx pick)) ticks = fillData m ticks \<and>
   snd (Stop (fst (Run (stub_miner stub_api))) Never_done pick) =
     ([Call_Ticker_Stop, Close_stop], Blocked) \<and>
   snd (Stop (fst (Run (stub_miner stub_api))) (Done (Foreign ''context deadline exceeded'')) pick) =
     ([Call_Ticker_Stop, Close_stop, Call_sealing_Stop],
      Returned (Some (Foreign ''context deadline exceeded'')))"
proof -
  have open_after: "stopped (after steps (fst (NewMiner a addr hh d s t))) = Open"
    by (simp add: stopped_after NewMiner_def)
  have "snd (snd (Stop (after steps (fst (NewMiner a addr hh d s t))) ctx pick)) \<noteq> Returned None"
    by (rule Stop_open_not_nil [OF open_after])
  moreover have "Stop (m\<lparr>dataTiker := Some tk, stop := Open, stopped := Open\<rparr>) ctx pick =
     (m\<lparr>dataTiker := Some (tk\<lparr>active := False\<rparr>), stop := Closed, stopped := Open\<rparr>,
      [Call_Ticker_Stop, Close_stop] @
        (case ctx of Never_done \<Rightarrow> [] | Done err \<Rightarrow> [Call_sealing_Stop]),
      (case ctx of Never_done \<Rightarrow> Blocked | Done err \<Rightarrow> Returned (Some err)))"
    by (simp add: Stop_def Let_def select_stopped_or_Done_def split: Context.splits)
  moreover have "\<not> list_ex starts_work (fst (snd (Stop m ctx pick)))"
    by (simp add: Stop_def Let_def select_stopped_or_Done_def
        split: option.splits chan.splits Context.splits select_case.splits)
  moreover have "fillData (fst (Stop m ctx pick)) ticks = fillData m ticks"
    by (rule fillData_after_Stop)
  moreover have "snd (Stop (fst (Run (stub_miner stub_api))) Never_done pick) =
     ([Call_Ticker_Stop, Close_stop], Blocked)"
    by (simp add: Stop_def Run_def runPreflightChecks_def stub_miner_def NewMiner_def
        stub_api_def select_stopped_or_Done_def)
  moreover have "snd (Stop (fst (Run (stub_miner stub_api)))
       (Done (Foreign ''context deadline exceeded'')) pick) =
     ([Call_Ticker_Stop, Close_stop, Call_sealing_Stop],
      Returned (Some (Foreign ''context deadline exceeded'')))"
    by (simp add: Stop_def Run_def runPreflightChecks_def stub_miner_def NewMiner_def
        stub_api_def select_stopped_or_Done_def)
  ultimately show ?thesis using open_after by simp
qed

subsection \<open>Run and the preflight checks\<close>

text \<open>
  Claim C5. When the preflight checks fail with an error, \<^verbatim>\<open>Run\<close> returns that error
  wrapped by \<^verbatim>\<open>"miner preflight checks failed: %w"\<close>, runs no \<^verbatim>\<open>go\<close> statement and
  starts no other work, and leaves every field of the miner but \<^verbatim>\<open>worker\<close> as it was:
  the ticker, the sealing machine and the two channels are those of the miner before.
\<close>

theorem Run_preflight_failure:
  "snd (snd (runPreflightChecks m)) = Some e \<Longrightarrow>
     snd (snd (Run m)) = Some (Errorf ''miner preflight checks failed: %w'' e) \<and>
     wraps (Errorf ''miner preflight checks failed: %w'' e) e \<and>
     loops_started (fst (snd (Run m))) = 0 \<and>
     \<not> list_ex starts_work (fst (snd (Run m))) \<and>
     fst (Run m) = m\<lparr>worker := worker (fst (Run m))\<rparr> \<and>
     dataTiker (fst (Run m)) = dataTiker m \<and> sealing (fst (Run m)) = sealing m \<and>
     stop (fst (Run m)) = stop m \<and> stopped (fst (Run m)) = stopped m"
  by (auto simp: Run_def runPreflightChecks_def Let_def loops_started_def
      split: prod.splits option.splits if_splits)

theorem Run_preflight_failure_witness:
  "snd (snd (runPreflightChecks (stub_miner stub_api_no_key))) =
     Some (New ''key for worker not found in local wallet'') \<and>
   snd (snd (Run (stub_miner stub_api_no_key))) =
     Some (Errorf ''miner preflight checks failed: %w''
       (New ''key for worker not found in local wallet'')) \<and>
   loops_started (fst (snd (Run (stub_miner stub_api_no_key)))) = 0 \<and>
   dataTiker (fst (Run (stub_miner stub_api_no_key))) = None \<and>
   sealing (fst (Run (stub_miner stub_api_no_key))) = None \<and>
   stop (fst (Run (stub_miner stub_api_no_key))) = Open"
proof -
  have pre: "snd (snd (runPreflightChecks (stub_miner stub_api_no_key))) =
     Some (New ''key for worker not found in local wallet'')"
    by (simp add: runPreflightChecks_def stub_miner_def NewMiner_def stub_api_no_key_def)
  have init: "dataTiker (stub_miner stub_api_no_key) = None"
    "sealing (stub_miner stub_api_no_key) = None" "stop (stub_miner stub_api_no_key) = Open"
    by (simp_all add: stub_miner_def NewMiner_def)
  show ?thesis using pre init Run_preflight_failure [OF pre] by simp
qed

text \<open>
  Claim C6, as the code has it. The preflight checks ask the chain for the worker of the
  miner actor and then the wallet for a key of that worker. They fail with the error of the
  chain query when it fails, before the wallet is asked; with the error of the wallet query,
  wrapped, when that query fails; with \<^verbatim>\<open>"key for worker not found in local wallet"\<close>
  when both queries succeed and the wallet has no key; and succeed when both queries
  succeed and the wallet has the key.
\<close>

theorem runPreflightChecks_cases:
  "(\<forall>w e. StateMinerWorker (api m) (maddr m) = (w, Some e) \<longrightarrow>
      snd (runPreflightChecks m) = ([Call_StateMinerWorker (maddr m)], Some e)) \<and>
   (\<forall>w e. StateMinerWorker (api m) (maddr m) = (w, None) \<longrightarrow>
      snd (WalletHas (api m) w) = Some e \<longrightarrow>
      snd (runPreflightChecks m) =
        ([Call_StateMinerWorker (maddr m), Call_WalletHas w],
         Some (Errorf ''failed to check wallet for worker key: %w'' e))) \<and>
   (\<forall>w. StateMinerWorker (api m) (maddr m) = (w, None) \<longrightarrow>
      WalletHas (api m) w = (False, None) \<longrightarrow>
      snd (runPreflightChecks m) =
        ([Call_StateMinerWorker (maddr m), Call_WalletHas w],
         Some (New ''key for worker not found in local wallet''))) \<and>
   (\<forall>w. StateMinerWorker (api m) (maddr m) = (w, None) \<longrightarrow>
      WalletHas (api m) w = (True, None) \<longrightarrow>
      snd (runPreflightChecks m) =
        ([Call_StateMinerWorker (maddr m), Call_WalletHas w], None))"
  by (auto simp: runPreflightChecks_def Let_def split: prod.splits option.splits)

theorem runPreflightChecks_cases_witness:
  "snd (runPreflightChecks (stub_miner stub_api_no_actor)) =
     ([Call_StateMinerWorker ''t01000''], Some (Foreign ''actor not found'')) \<and>
   snd (runPreflightChecks (stub_miner stub_api_wallet_down)) =
     ([Call_StateMinerWorker ''t01000'', Call_WalletHas ''t3worker''],
      Some (Errorf ''failed to check wallet for worker key: %w'' (Foreign ''wallet locked''))) \<and>
   snd (runPreflightChecks (stub_miner stub_api_no_key)) =
     ([Call_StateMinerWorker ''t01000'', Call_WalletHas ''t3worker''],
      Some (New ''key for worker not found in local wallet'')) \<and>
   snd (runPreflightChecks (stub_miner stub_api)) =
     ([Call_StateMinerWorker ''t01000'', Call_WalletHas ''t3worker''], None)"
  using runPreflightChecks_cases [of "stub_miner stub_api_no_actor"]
    runPreflightChecks_cases [of "stub_miner stub_api_wallet_down"]
    runPreflightChecks_cases [of "stub_miner stub_api_no_key"]
    runPreflightChecks_cases [of "stub_miner stub_api"]
  by (simp add: stub_miner_def NewMiner_def stub_api_no_actor_def stub_api_wallet_down_def
      stub_api_no_key_def stub_api_def)

text \<open>
  Claim C6, as stated, fails where the wallet query itself fails. With a wallet that
  answers an error next to \<open>True\<close>, the chain query succeeds and the wallet does not lack
  the key, and the checks fail. With a wallet that answers an error next to \<open>False\<close>, the
  checks fail with the wrapped error of the query, not with the error for a missing key.
\<close>

theorem runPreflightChecks_wallet_query_fails:
  "StateMinerWorker (api (stub_miner stub_api_wallet_flaky)) (maddr (stub_miner stub_api_wallet_flaky)) =
     (''t3worker'', None) \<and>
   fst (WalletHas (api (stub_miner stub_api_wallet_flaky)) ''t3worker'') \<and>
   snd (snd (runPreflightChecks (stub_miner stub_api_wallet_flaky))) =
     Some (Errorf ''failed to check wallet for worker key: %w'' (Foreign ''wallet locked'')) \<and>
   StateMinerWorker (api (stub_miner stub_api_wallet_down)) (maddr (stub_miner stub_api_wallet_down)) =
     (''t3worker'', None) \<and>
   \<not> fst (WalletHas (api (stub_miner stub_api_wallet_down)) ''t3worker'') \<and>
   snd (snd (runPreflightChecks (stub_miner stub_api_wallet_down))) =
     Some (Errorf ''failed to check wallet for worker key: %w'' (Foreign ''wallet locked'')) \<and>
   snd (snd (runPreflightChecks (stub_miner stub_api_wallet_down))) \<noteq>
     Some (New ''key for worker not found in local wallet'')"
  by (simp add: runPreflightChecks_def stub_miner_def NewMiner_def stub_api_wallet_down_def
      stub_api_wallet_flaky_def)

text \<open>
  Claim C10. When the chain query succeeds, the preflight checks store its answer in
  \<^verbatim>\<open>worker\<close> before they ask the wallet: if the wallet query fails or finds no key, the
  checks, and \<^verbatim>\<open>Run\<close> with them, return an error and the miner keeps the new worker.
\<close>

theorem runPreflightChecks_keeps_worker:
  "StateMinerWorker (api m) (maddr m) = (w, None) \<Longrightarrow>
   snd (WalletHas (api m) w) \<noteq> None \<or> \<not> fst (WalletHas (api m) w) \<Longrightarrow>
     snd (snd (runPreflightChecks m)) \<noteq> None \<and> worker (fst (runPreflightChecks m)) = w \<and>
     snd (snd (Run m)) \<noteq> None \<and> worker (fst (Run m)) = w"
  by (auto simp: Run_def runPreflightChecks_def Let_def split: prod.splits option.splits)

theorem runPreflightChecks_keeps_worker_witness:
  "StateMinerWorker (api (stub_miner stub_api_no_key)) (maddr (stub_miner stub_api_no_key)) =
     (''t3worker'', None) \<and>
   \<not> fst (WalletHas (api (stub_miner stub_api_no_key)) ''t3worker'') \<and>
   worker (stub_miner stub_api_no_key) = [] \<and>
   snd (snd (Run (stub_miner stub_api_no_key))) \<noteq> None \<and>
   worker (fst (Run (stub_miner stub_api_no_key))) = ''t3worker''"
proof -
  have q: "StateMinerWorker (api (stub_miner stub_api_no_key)) (maddr (stub_miner stub_api_no_key)) =
     (''t3worker'', None)"
    and k: "\<not> fst (WalletHas (api (stub_miner stub_api_no_key)) ''t3worker'')"
    and z: "worker (stub_miner stub_api_no_key) = []"
    by (simp_all add: stub_miner_def NewMiner_def stub_api_no_key_def)
  from k have k': "snd (WalletHas (api (stub_miner stub_api_no_key)) ''t3worker'') \<noteq> None \<or>
     \<not> fst (WalletHas (api (stub_miner stub_api_no_key)) ''t3worker'')" by simp
  show ?thesis using q k z runPreflightChecks_keeps_worker [OF q k'] by simp
qed

subsection \<open>The ticker loop\<close>

text \<open>
  Claim C4. One tick of \<^verbatim>\<open>fillData\<close> calls \<^verbatim>\<open>PledgeSector\<close> once when the sector
  builder has a free worker and is not busy, however many workers are free, and never
  more than once; it does not call it when the sector builder is busy, whatever the
  number of free workers. Over the ticks received, the calls are as many as the ticks at
  which a worker was free and the sector builder not busy.
\<close>

theorem fillData_one_pledge_per_tick:
  "(0 < GetFreeWorkers (sb m) \<and> \<not> Busy (sb m) \<longrightarrow> pledges (fillData_tick m) = 1) \<and>
   (Busy (sb m) \<longrightarrow> pledges (fillData_tick m) = 0) \<and>
   pledges (fillData_tick m) \<le> 1 \<and>
   pledges (fillData m ticks) =
     length (filter (\<lambda>s. 0 < GetFreeWorkers s \<and> \<not> Busy s) ticks)"
  by (simp add: pledges_fillData_tick pledges_fillData)

theorem fillData_one_pledge_per_tick_witness:
  "0 < GetFreeWorkers (sb (stub_miner stub_api)) \<and> \<not> Busy (sb (stub_miner stub_api)) \<and>
   GetFreeWorkers (sb (stub_miner stub_api)) = 3 \<and>
   pledges (fillData_tick (stub_miner stub_api)) = 1 \<and>
   Busy (sb (stub_miner stub_api\<lparr>sb := stub_sb_failing\<rparr>)) \<and>
   GetFreeWorkers (sb (stub_miner stub_api\<lparr>sb := stub_sb_failing\<rparr>)) = 3 \<and>
   pledges (fillData_tick (stub_miner stub_api\<lparr>sb := stub_sb_failing\<rparr>)) = 0 \<and>
   pledges (fillData (stub_miner stub_api) [stub_sb, stub_sb_failing, stub_sb]) = 2"
  using fillData_one_pledge_per_tick [of "stub_miner stub_api" "[stub_sb, stub_sb_failing, stub_sb]"]
    fillData_one_pledge_per_tick [of "stub_miner stub_api\<lparr>sb := stub_sb_failing\<rparr>" "[]"]
  by (simp add: stub_miner_def NewMiner_def stub_sb_def stub_sb_failing_def)

subsection \<open>The election proof adapter\<close>

text \<open>
  Claim C2. With \<^verbatim>\<open>build.InsecurePoStValidation\<close> set, \<^verbatim>\<open>ComputeProof\<close> returns the
  bytes of \<^verbatim>\<open>"valid proof"\<close> and the nil error, for every sector info, randomness and
  set of winners, and calls nothing: its trace is empty.
\<close>

theorem ComputeProof_insecure:
  "ComputeProof True epp ssi rand winners = ([], (bytes ''valid proof'', None)) \<and>
   bytes ''valid proof'' = [0x76, 0x61, 0x6C, 0x69, 0x64, 0x20, 0x70, 0x72, 0x6F, 0x6F, 0x66]"
  by (simp add: ComputeProof_def bytes_def)

text \<open>
  Claim C3. With the flag unset, \<^verbatim>\<open>ComputeProof\<close> makes one call,
  \<^verbatim>\<open>ComputeElectionPoSt\<close> with the sector info, the randomness and the winners it was
  given. When that call returns no error, \<^verbatim>\<open>ComputeProof\<close> returns its proof as it is;
  when it returns an error, \<^verbatim>\<open>ComputeProof\<close> returns that error and the nil proof.
\<close>

theorem ComputeProof_forwards:
  "fst (ComputeProof False epp ssi rand winners) = [Call_ComputeElectionPoSt ssi rand winners] \<and>
   (\<forall>p. ComputeElectionPoSt (epp_sb epp) ssi rand winners = (p, None) \<longrightarrow>
        snd (ComputeProof False epp ssi rand winners) = (p, None)) \<and>
   (\<forall>p e. ComputeElectionPoSt (epp_sb epp) ssi rand winners = (p, Some e) \<longrightarrow>
        snd (ComputeProof False epp ssi rand winners) = ([], Some e))"
  by (simp add: ComputeProof_def Let_def split: prod.splits option.splits)

theorem ComputeProof_forwards_witness:
  "ComputeElectionPoSt (epp_sb (NewElectionPoStProver stub_sb)) 5 [1, 2] [3] = ([1, 2, 3], None) \<and>
   ComputeProof False (NewElectionPoStProver stub_sb) 5 [1, 2] [3] =
     ([Call_ComputeElectionPoSt 5 [1, 2] [3]], ([1, 2, 3], None)) \<and>
   ComputeElectionPoSt (epp_sb (NewElectionPoStProver stub_sb_failing)) 5 [1, 2] [3] =
     ([1, 2], Some (Foreign ''proof failed'')) \<and>
   ComputeProof False (NewElectionPoStProver stub_sb_failing) 5 [1, 2] [3] =
     ([Call_ComputeElectionPoSt 5 [1, 2] [3]], ([], Some (Foreign ''proof failed'')))"
proof -
  have ok: "ComputeElectionPoSt (epp_sb (NewElectionPoStProver stub_sb)) 5 [1, 2] [3] =
      ([1, 2, 3], None)"
    by (simp add: NewElectionPoStProver_def stub_sb_def)
  have bad: "ComputeElectionPoSt (epp_sb (NewElectionPoStProver stub_sb_failing)) 5 [1, 2] [3] =
     ([1, 2], Some (Foreign ''proof failed''))"
    by (simp add: NewElectionPoStProver_def stub_sb_failing_def)
  from ComputeProof_forwards [of "NewElectionPoStProver stub_sb" 5 "[1, 2]" "[3]"] ok
  have 1: "ComputeProof False (NewElectionPoStProver stub_sb) 5 [1, 2] [3] =
     ([Call_ComputeElectionPoSt 5 [1, 2] [3]], ([1, 2, 3], None))"
    by (simp add: prod_eq_iff)
  from ComputeProof_forwards [of "NewElectionPoStProver stub_sb_failing" 5 "[1, 2]" "[3]"] bad
  have 2: "ComputeProof False (NewElectionPoStProver stub_sb_failing) 5 [1, 2] [3] =
     ([Call_ComputeElectionPoSt 5 [1, 2] [3]], ([], Some (Foreign ''proof failed'')))"
    by (simp add: prod_eq_iff)
  show ?thesis using ok bad 1 2 by simp
qed

text \<open>
  Claim C7, as the code has it. \<^verbatim>\<open>GenerateCandidates\<close> makes one call,
  \<^verbatim>\<open>GenerateEPostCandidates\<close> with the sector info, the 32 bytes of \<^verbatim>\<open>randbuf\<close> and
  the empty fault set. When that call returns an error, \<^verbatim>\<open>GenerateCandidates\<close> returns
  that very error, not wrapped in another, and no candidate, whatever candidates came
  with the error; when it returns no error, its candidates are returned as they are.
\<close>

theorem GenerateCandidates_forwards:
  "fst (GenerateCandidates epp ssi rand) = [Call_GenerateEPostCandidates ssi (randbuf rand) []] \<and>
   (\<forall>cds e. GenerateEPostCandidates (epp_sb epp) ssi (randbuf rand) [] = (cds, Some e) \<longrightarrow>
      snd (GenerateCandidates epp ssi rand) = ([], Some e)) \<and>
   (\<forall>cds. GenerateEPostCandidates (epp_sb epp) ssi (randbuf rand) [] = (cds, None) \<longrightarrow>
      snd (GenerateCandidates epp ssi rand) = (cds, None))"
  by (simp add: GenerateCandidates_trace) (simp add: GenerateCandidates_def Let_def)

theorem GenerateCandidates_forwards_witness:
  "GenerateEPostCandidates (epp_sb (NewElectionPoStProver stub_sb_failing)) 5 (randbuf [1, 2]) [] =
     ([7], Some (Foreign ''sector unavailable'')) \<and>
   GenerateCandidates (NewElectionPoStProver stub_sb_failing) 5 [1, 2] =
     ([Call_GenerateEPostCandidates 5 (randbuf [1, 2]) []],
      ([], Some (Foreign ''sector unavailable''))) \<and>
   GenerateEPostCandidates (epp_sb (NewElectionPoStProver stub_sb)) 5 (randbuf [1, 2]) [] =
     ([37], None) \<and>
   GenerateCandidates (NewElectionPoStProver stub_sb) 5 [1, 2] =
     ([Call_GenerateEPostCandidates 5 (randbuf [1, 2]) []], ([37], None))"
  using GenerateCandidates_forwards [of "NewElectionPoStProver stub_sb_failing" 5 "[1, 2]"]
    GenerateCandidates_forwards [of "NewElectionPoStProver stub_sb" 5 "[1, 2]"]
  by (simp add: NewElectionPoStProver_def stub_sb_failing_def stub_sb_def length_randbuf
      prod_eq_iff)

text \<open>
  Claim C7, as stated, fails in one point: the error that \<^verbatim>\<open>GenerateCandidates\<close> returns
  is the error of the sector builder itself, here \<open>Foreign ''sector unavailable''\<close>, and
  not an error that wraps it, as the errors made by \<^verbatim>\<open>xerrors.Errorf\<close> in \<^verbatim>\<open>Run\<close> do.
\<close>

theorem GenerateCandidates_error_not_wrapped:
  "snd (GenerateEPostCandidates (epp_sb (NewElectionPoStProver stub_sb_failing)) 5 (randbuf [1, 2]) []) =
     Some (Foreign ''sector unavailable'') \<and>
   snd (snd (GenerateCandidates (NewElectionPoStProver stub_sb_failing) 5 [1, 2])) =
     Some (Foreign ''sector unavailable'') \<and>
   \<not> wraps (Foreign ''sector unavailable'') (Foreign ''sector unavailable'')"
  by (simp add: GenerateCandidates_def NewElectionPoStProver_def stub_sb_failing_def)

text \<open>
  Claim C9. The sector builder is called with \<^verbatim>\<open>randbuf\<close>, which always has 32 bytes:
  the first 32 bytes of the randomness when it has at least 32, and the randomness
  followed by zero bytes when it has fewer. Two randomness values with the same first 32
  bytes give the same call and the same result.
\<close>

theorem GenerateCandidates_randomness:
  "length (randbuf r) = 32 \<and>
   randbuf r = take 32 r @ replicate (32 - length r) 0 \<and>
   (32 \<le> length r \<longrightarrow> randbuf r = take 32 r) \<and>
   (length r < 32 \<longrightarrow> randbuf r = r @ replicate (32 - length r) 0) \<and>
   fst (GenerateCandidates epp ssi r) = [Call_GenerateEPostCandidates ssi (randbuf r) []] \<and>
   (take 32 r = take 32 r' \<longrightarrow> GenerateCandidates epp ssi r = GenerateCandidates epp ssi r')"
proof -
  have "GenerateCandidates epp ssi r = GenerateCandidates epp ssi r'" if "take 32 r = take 32 r'"
    using randbuf_cong [OF that] by (simp add: GenerateCandidates_def)
  then show ?thesis
    by (simp add: length_randbuf GenerateCandidates_trace) (simp add: randbuf_eq)
qed

theorem GenerateCandidates_randomness_witness:
  "(32::nat) \<le> length (replicate 40 (7::byte)) \<and>
   randbuf (replicate 40 7) = replicate 32 7 \<and>
   length [1, 2 :: byte] < 32 \<and>
   randbuf [1, 2] = [1, 2] @ replicate 30 0 \<and>
   take 32 (replicate 40 (7::byte)) = take 32 (replicate 32 7 @ [9, 9]) \<and>
   GenerateCandidates (NewElectionPoStProver stub_sb) 5 (replicate 40 7) =
     GenerateCandidates (NewElectionPoStProver stub_sb) 5 (replicate 32 7 @ [9, 9])"
  using GenerateCandidates_randomness
    [of "replicate 40 7" "NewElectionPoStProver stub_sb" 5 "replicate 32 7 @ [9, 9]"]
    GenerateCandidates_randomness [of "[1, 2]" "NewElectionPoStProver stub_sb" 5 "[]"]
  by simp

end
